theory Spec2Isabelle
  imports Complex_Main
begin

section \<open>Errors\<close>

text \<open>
  The exceptions the modelled code can raise, as values. \<open>RuntimeError\<close> is what the array
  backend raises for operands that cannot be broadcast together or stacked, \<open>IndexError\<close>
  what it raises for a boolean mask whose shape differs from the indexed array's,
  \<open>TypeError\<close> what it raises for an argument that is not an array.
\<close>

datatype error = ValueError string | KeyError | IndexError | RuntimeError | TypeError

definition and_then :: "error + 'a \<Rightarrow> ('a \<Rightarrow> error + 'b) \<Rightarrow> error + 'b" where
  "and_then m f = (case m of Inl e \<Rightarrow> Inl e | Inr x \<Rightarrow> f x)"

section \<open>Arrays of the backend\<close>

text \<open>
  An array is its shape and its elements in row-major order. Floating-point numbers are
  idealised as real numbers throughout; \<open>log\<close> is \<^const>\<open>ln\<close>.
\<close>

datatype 'a tensor = Tensor (shape: "nat list") (elems: "'a list")

type_synonym Array = "real tensor"

text \<open>Broadcasting: shapes are aligned at their last dimension; sizes must agree or be 1.\<close>

fun broadcast_rev :: "nat list \<Rightarrow> nat list \<Rightarrow> nat list option" where
  "broadcast_rev [] ys = Some ys"
| "broadcast_rev (x # xs) [] = Some (x # xs)"
| "broadcast_rev (x # xs) (y # ys) =
     (if x = y \<or> y = 1 then map_option ((#) x) (broadcast_rev xs ys)
      else if x = 1 then map_option ((#) y) (broadcast_rev xs ys)
      else None)"

definition broadcast_shapes :: "nat list \<Rightarrow> nat list \<Rightarrow> nat list option" where
  "broadcast_shapes s t = map_option rev (broadcast_rev (rev s) (rev t))"

text \<open>All multi-indices of a shape in row-major order, and the position of a multi-index
  in an array of a shape of the same rank whose dimensions of size 1 are repeated.\<close>

fun indices :: "nat list \<Rightarrow> nat list list" where
  "indices [] = [[]]"
| "indices (n # s) = concat (map (\<lambda>i. map ((#) i) (indices s)) [0..<n])"

fun offset :: "nat list \<Rightarrow> nat list \<Rightarrow> nat" where
  "offset (d # ds) (i # js) = (if d = 1 then 0 else i) * prod_list ds + offset ds js"
| "offset _ _ = 0"

definition expand :: "'a tensor \<Rightarrow> nat list \<Rightarrow> 'a tensor" where
  "expand a s =
     (if s = shape a then a
      else Tensor s (map (\<lambda>idx. elems a ! offset (replicate (length s - length (shape a)) 1 @ shape a) idx)
                         (indices s)))"

text \<open>An elementwise binary operation of the backend (\<open>-\<close>, \<open><=\<close>, ...).\<close>

definition binop :: "('a \<Rightarrow> 'b \<Rightarrow> 'c) \<Rightarrow> 'a tensor \<Rightarrow> 'b tensor \<Rightarrow> error + 'c tensor" where
  "binop f a b =
     (case broadcast_shapes (shape a) (shape b) of
        None \<Rightarrow> Inl RuntimeError
      | Some s \<Rightarrow> Inr (Tensor s (map2 f (elems (expand a s)) (elems (expand b s)))))"

text \<open>\<open>xp.clip(x, lo)\<close>: every element raised to at least \<open>lo\<close>.\<close>

definition clip :: "Array \<Rightarrow> real \<Rightarrow> Array" where
  "clip x lo = map_tensor (\<lambda>v. max v lo) x"

text \<open>
  \<open>xp.log\<close>: the backend of this package is torch (\<open>import torch as xp\<close>), whose \<open>log\<close>
  takes an array and gives the logarithm of every element; a Python number is not
  accepted and raises \<open>TypeError\<close>.
\<close>

datatype log_arg = ArrayArg Array | IntArg int

definition xp_log :: "log_arg \<Rightarrow> error + Array" where
  "xp_log x = (case x of ArrayArg a \<Rightarrow> Inr (map_tensor ln a) | IntArg n \<Rightarrow> Inl TypeError)"

text \<open>
  The backend's \<open>erf\<close> is the error function, here by its power series
  \<open>2/\<surd>\<pi> \<Sum> (-1)^n x^(2n+1) / (n! (2n+1))\<close>.
\<close>

definition erf :: "real \<Rightarrow> real" where
  "erf x = 2 / sqrt pi * (\<Sum>n. (- 1) ^ n * x ^ (2 * n + 1) / (fact n * real (2 * n + 1)))"

section \<open>Data and parameter containers\<close>

text \<open>
  Modelled from the spec: the \<open>Data\<close> container of the core package, which is not among
  the sources: "a named, column-oriented array container; columns are accessed by
  coordinate/parameter name". As \<open>_connect/data.py\<close> builds it, it holds an \<open>array\<close> and the
  \<open>names\<close> of the columns, the array's second dimension. A string key gives the column
  \<open>array[:, k]\<close>, a tuple of names the container of those columns, an unknown name is a
  \<open>KeyError\<close>.
\<close>

record Data =
  array :: Array
  names :: "string list"

definition name_index :: "string list \<Rightarrow> string \<Rightarrow> nat" where
  "name_index ns n = length (takeWhile (\<lambda>m. m \<noteq> n) ns)"

definition select_columns :: "Array \<Rightarrow> nat list \<Rightarrow> error + Array" where
  "select_columns a ks =
     (case shape a of
        n # k # rest \<Rightarrow>
          Inr (Tensor (n # length ks # rest)
                 (concat (map (\<lambda>i. concat (map (\<lambda>j. take (prod_list rest)
                                                  (drop ((i * k + j) * prod_list rest) (elems a))) ks))
                              [0..<n])))
      | _ \<Rightarrow> Inl IndexError)"

definition select_column :: "Array \<Rightarrow> nat \<Rightarrow> error + Array" where
  "select_column a j =
     (case shape a of
        n # k # rest \<Rightarrow>
          Inr (Tensor (n # rest)
                 (concat (map (\<lambda>i. take (prod_list rest) (drop ((i * k + j) * prod_list rest) (elems a)))
                              [0..<n])))
      | _ \<Rightarrow> Inl IndexError)"

definition getitem_str :: "Data \<Rightarrow> string \<Rightarrow> error + Array" where
  "getitem_str d c =
     (if c \<in> set (names d) then select_column (array d) (name_index (names d) c)
      else Inl KeyError)"

definition getitem_names :: "Data \<Rightarrow> string list \<Rightarrow> error + Data" where
  "getitem_names d key =
     (if set key \<subseteq> set (names d)
      then and_then (select_columns (array d) (map (name_index (names d)) key))
             (\<lambda>a. Inr \<lparr>array = a, names = key\<rparr>)
      else Inl KeyError)"

text \<open>
  \<open>Params\<close>: a mapping from (coordinate name, parameter name) to an array; a missing key
  is a \<open>KeyError\<close>.
\<close>

type_synonym Params = "string \<times> string \<Rightarrow> Array option"

definition getitem_params :: "Params \<Rightarrow> string \<times> string \<Rightarrow> error + Array" where
  "getitem_params mpars k = (case mpars k of None \<Rightarrow> Inl KeyError | Some a \<Rightarrow> Inr a)"

section \<open>Skew-normal log-densities (\<open>builtin/_skewnormal.py\<close>)\<close>

text \<open>
  The functions of this module take the array namespace \<open>xp\<close> as an argument.
  \<open>skewnorm_logpdf\<close> uses only its elementwise operations on arrays and is given by the
  value it computes at one element; over arrays it is that function applied to the four
  arrays broadcast together. \<open>log_truncation_term\<close> also calls \<open>xp.log\<close> on the Python
  number 4, so it and its callers are given on arrays, with their errors.
\<close>

definition sqrt2 :: real where
  "sqrt2 = sqrt 2"

text \<open>
  Modelled from the spec: \<open>norm_logpdf\<close> of \<open>builtin/_normal.py\<close>, which is not among the
  sources: "the standard Gaussian log-density:
  \<open>-0.5*((value-loc)/sigma)^2 - log(sigma) - 0.5*log(2*pi)\<close>".
\<close>

definition norm_logpdf :: "real \<Rightarrow> real \<Rightarrow> real \<Rightarrow> real" where
  "norm_logpdf value loc sigma =
     - 0.5 * ((value - loc) / sigma) ^ 2 - ln sigma - 0.5 * ln (2 * pi)"

definition skewnorm_logpdf :: "real \<Rightarrow> real \<Rightarrow> real \<Rightarrow> real \<Rightarrow> real" where
  "skewnorm_logpdf value loc sigma skew =
     norm_logpdf value loc sigma + ln (1 + erf (skew * (value - loc) / sigma / sqrt2))"

text \<open>A function of four elements applied over four arrays broadcast together.\<close>

definition elementwise4 ::
  "(real \<Rightarrow> real \<Rightarrow> real \<Rightarrow> real \<Rightarrow> real) \<Rightarrow> Array \<Rightarrow> Array \<Rightarrow> Array \<Rightarrow> Array \<Rightarrow> error + Array" where
  "elementwise4 f a b c d =
     and_then (binop Pair a b) (\<lambda>ab.
     and_then (binop Pair ab c) (\<lambda>abc.
     and_then (binop Pair abc d) (\<lambda>abcd.
     Inr (map_tensor (\<lambda>(((x, y), z), u). f x y z u) abcd))))"

text \<open>
  Lines 152 to 154. \<open>ab[0] - loc\<close> and the division by \<open>_sqrt2\<close> combine an array with a
  float; the operands of \<open>+\<close> and \<open>-\<close> are evaluated from left to right, so \<open>xp.log(4)\<close>
  is reached after the two logarithms of arrays and their sum.
\<close>

definition log_truncation_term :: "real \<times> real \<Rightarrow> Array \<Rightarrow> Array \<Rightarrow> Array \<Rightarrow> error + Array" where
  "log_truncation_term ab loc sigma skew =
     and_then (binop (/) (map_tensor (\<lambda>l. fst ab - l) loc) sigma) (\<lambda>qa.
     let erfa = map_tensor (\<lambda>q. erf (q / sqrt2)) qa in
     and_then (binop (/) (map_tensor (\<lambda>l. snd ab - l) loc) sigma) (\<lambda>qb.
     let erfb = map_tensor (\<lambda>q. erf (q / sqrt2)) qb in
     and_then (binop (-) erfb erfa) (\<lambda>d.
     and_then (xp_log (ArrayArg d)) (\<lambda>log1.
     and_then (binop (+) erfb erfa) (\<lambda>e.
     and_then (xp_log (ArrayArg (map_tensor (\<lambda>v. v + 2) e))) (\<lambda>log2.
     and_then (binop (+) log1 log2) (\<lambda>total.
     and_then (xp_log (IntArg 4)) (\<lambda>log4.
     binop (-) total log4))))))))"

definition truncatedskewnorm_logpdf ::
  "Array \<Rightarrow> Array \<Rightarrow> Array \<Rightarrow> Array \<Rightarrow> real \<times> real \<Rightarrow> error + Array" where
  "truncatedskewnorm_logpdf value loc sigma skew ab =
     and_then (elementwise4 skewnorm_logpdf value loc sigma skew) (\<lambda>density.
     and_then (log_truncation_term ab loc sigma skew) (\<lambda>term.
     binop (-) density term))"

text \<open>
  The model classes. Of the base class, which is not among the sources, the record has the
  two fields read here; its \<open>__post_init__\<close> is an argument of the subclasses' one.
\<close>

record ModelBase =
  coord_names :: "string list"
  coord_bounds :: "string \<Rightarrow> (real \<times> real) option"

definition SkewNormal_post_init :: "(ModelBase \<Rightarrow> error + unit) \<Rightarrow> ModelBase \<Rightarrow> error + unit" where
  "SkewNormal_post_init super_post_init self =
     and_then (super_post_init self) (\<lambda>_.
       if length (coord_names self) \<noteq> 1
       then Inl (ValueError ''Only one coordinate is supported, e.g ('phi2',)'')
       else Inr ())"

definition TruncatedSkewNormal_post_init :: "(ModelBase \<Rightarrow> error + unit) \<Rightarrow> ModelBase \<Rightarrow> error + unit" where
  "TruncatedSkewNormal_post_init super_post_init self =
     and_then (super_post_init self) (\<lambda>_.
       if length (coord_names self) \<noteq> 1
       then Inl (ValueError ''Only one coordinate is supported, e.g ('phi2',)'')
       else Inr ())"

definition first_coord :: "ModelBase \<Rightarrow> error + string" where
  "first_coord self = (case coord_names self of [] \<Rightarrow> Inl IndexError | c # _ \<Rightarrow> Inr c)"

definition SkewNormal_ln_likelihood :: "ModelBase \<Rightarrow> Params \<Rightarrow> Data \<Rightarrow> error + Array" where
  "SkewNormal_ln_likelihood self mpars data =
     and_then (first_coord self) (\<lambda>c.
     and_then (getitem_str data c) (\<lambda>value.
     and_then (getitem_params mpars (c, ''mu'')) (\<lambda>mu.
     and_then (getitem_params mpars (c, ''sigma'')) (\<lambda>sigma.
     and_then (getitem_params mpars (c, ''skew'')) (\<lambda>skew.
     elementwise4 skewnorm_logpdf value mu (clip sigma (1 / 10 ^ 10)) (clip skew (1 / 10 ^ 10)))))))"

definition getitem_bounds :: "ModelBase \<Rightarrow> string \<Rightarrow> error + real \<times> real" where
  "getitem_bounds self c = (case coord_bounds self c of None \<Rightarrow> Inl KeyError | Some ab \<Rightarrow> Inr ab)"

definition TruncatedSkewNormal_ln_likelihood :: "ModelBase \<Rightarrow> Params \<Rightarrow> Data \<Rightarrow> error + Array" where
  "TruncatedSkewNormal_ln_likelihood self mpars data =
     and_then (first_coord self) (\<lambda>c.
     and_then (getitem_str data c) (\<lambda>value.
     and_then (getitem_params mpars (c, ''mu'')) (\<lambda>mu.
     and_then (getitem_params mpars (c, ''sigma'')) (\<lambda>sigma.
     and_then (getitem_params mpars (c, ''skew'')) (\<lambda>skew.
     and_then (first_coord self) (\<lambda>c0.
     and_then (getitem_bounds self c0) (\<lambda>ab.
     truncatedskewnorm_logpdf value mu (clip sigma (1 / 10 ^ 10)) (clip skew (1 / 10 ^ 10)) ab)))))))"


section \<open>Control-region prior (\<open>prior/_track.py\<close>)\<close>

text \<open>
  This module works on arrays of the backend it imports, with their shapes.
  \<open>squeeze\<close> drops every dimension of size 1; \<open>x[None, None]\<close> of an array without
  dimensions has shape \<open>(1, 1)\<close>, \<open>x[:, None]\<close> of one of shape \<open>(n,)\<close> has shape \<open>(n, 1)\<close>;
  none of them moves an element.
\<close>

definition ndim :: "'a tensor \<Rightarrow> nat" where
  "ndim x = length (shape x)"

definition squeeze :: "'a tensor \<Rightarrow> 'a tensor" where
  "squeeze x = Tensor (filter (\<lambda>d. d \<noteq> 1) (shape x)) (elems x)"

definition atleast_2d :: "'a tensor \<Rightarrow> 'a tensor" where
  "atleast_2d x =
     (if ndim x = 0 then Tensor [1, 1] (elems x)
      else if ndim x = 1 then Tensor (shape x @ [1]) (elems x)
      else x)"

definition zeros_like :: "Array \<Rightarrow> Array" where
  "zeros_like x = map_tensor (\<lambda>_. 0) x"

definition ones_like :: "Array \<Rightarrow> Array" where
  "ones_like x = map_tensor (\<lambda>_. 1) x"

text \<open>
  \<open>xp.stack(arrays, 1)\<close>: the arrays, all of one shape \<open>(n, ...)\<close>, side by side along a
  new second dimension. An empty tuple and unequal shapes are a \<open>RuntimeError\<close>, arrays
  without dimensions an \<open>IndexError\<close>.
\<close>

definition stack1 :: "Array list \<Rightarrow> error + Array" where
  "stack1 ts =
     (case ts of
        [] \<Rightarrow> Inl RuntimeError
      | t # _ \<Rightarrow>
          if \<not> list_all (\<lambda>u. shape u = shape t) ts then Inl RuntimeError
          else (case shape t of
                  [] \<Rightarrow> Inl IndexError
                | n # rest \<Rightarrow>
                    Inr (Tensor (n # length ts # rest)
                           (concat (map (\<lambda>i. concat (map (\<lambda>u. take (prod_list rest)
                                                            (drop (i * prod_list rest) (elems u))) ts))
                                        [0..<n])))))"

text \<open>
  Indexing by a boolean mask. In \<open>logpdf\<close> a mask is the result of a comparison that
  involves the indexed array, so its rank is never below the array's, and the backend
  accepts it only when the two shapes are equal. \<open>a[mask]\<close> is then the one-dimensional
  array of the elements where the mask holds, and \<open>a[mask] = v\<close> writes the elements of
  \<open>v\<close>, which has that shape in \<open>logpdf\<close>, to these places in order.
\<close>

definition count_true :: "bool tensor \<Rightarrow> nat" where
  "count_true m = length (filter id (elems m))"

definition selected :: "'a list \<Rightarrow> bool list \<Rightarrow> 'a list" where
  "selected xs bs = map fst (filter snd (zip xs bs))"

definition mask_get :: "'a tensor \<Rightarrow> bool tensor \<Rightarrow> error + 'a tensor" where
  "mask_get a m =
     (if shape m = shape a then Inr (Tensor [count_true m] (selected (elems a) (elems m)))
      else Inl IndexError)"

fun put_masked :: "'a list \<Rightarrow> bool list \<Rightarrow> 'a list \<Rightarrow> 'a list" where
  "put_masked (p # ps) (b # bs) (v # vs) =
     (if b then v # put_masked ps bs vs else p # put_masked ps bs (v # vs))"
| "put_masked (p # ps) (b # bs) [] = p # put_masked ps bs []"
| "put_masked ps [] vs = ps"
| "put_masked [] bs vs = []"

definition mask_set :: "'a tensor \<Rightarrow> bool tensor \<Rightarrow> 'a tensor \<Rightarrow> error + 'a tensor" where
  "mask_set a m v =
     (if shape m = shape a
      then if shape v = [count_true m]
           then Inr (Tensor (shape a) (put_masked (elems a) (elems m) (elems v)))
           else Inl RuntimeError
      else Inl IndexError)"

text \<open>
  The prior: the five configured fields and the four that \<open>__post_init__\<close> stores
  (\<open>_x\<close>, \<open>_y_names\<close>, \<open>_y\<close>, \<open>_w\<close>). A \<open>width\<close> is a float (\<open>Inl\<close>) or a \<open>Data\<close> (\<open>Inr\<close>).
\<close>

record ControlRegions =
  center :: Data
  width :: "real + Data"
  lamda :: real
  coord_name :: string
  component_param_name :: string
  attr_x :: Data
  attr_y_names :: "string list"
  attr_y :: Array
  attr_w :: Array

text \<open>
  \<open>__post_init__\<close>, as a function of the configured fields. The hook of the base class
  \<open>Prior\<close>, which is not among the sources, is taken to pass and to leave them alone.
\<close>

definition ControlRegions_post_init ::
  "Data \<Rightarrow> real + Data \<Rightarrow> real \<Rightarrow> string \<Rightarrow> string \<Rightarrow> error + ControlRegions" where
  "ControlRegions_post_init center0 width0 lamda0 coord_name0 component_param_name0 =
     and_then (getitem_names center0 [coord_name0]) (\<lambda>x.
     let dep_names = filter (\<lambda>n. n \<noteq> coord_name0) (names center0) in
     and_then (getitem_names center0 dep_names) (\<lambda>yd.
     let y = atleast_2d (squeeze (array yd)) in
     and_then (case width0 of
                 Inr wd \<Rightarrow> and_then (getitem_names wd dep_names)
                             (\<lambda>d. Inr (atleast_2d (squeeze (array d))))
               | Inl scalar \<Rightarrow> Inr (map_tensor (\<lambda>one. one * scalar) (ones_like y))) (\<lambda>w.
     Inr \<lparr>center = center0, width = width0, lamda = lamda0, coord_name = coord_name0,
          component_param_name = component_param_name0,
          attr_x = x, attr_y_names = dep_names, attr_y = y, attr_w = w\<rparr>)))"

text \<open>
  The model the prior is evaluated for is an argument: \<open>model.unpack_params(model(x))\<close> as
  one function from the control points to the parameters there.
\<close>

type_synonym Model = "Data \<Rightarrow> Params"

fun getitems :: "Params \<Rightarrow> string \<Rightarrow> string list \<Rightarrow> error + Array list" where
  "getitems cmpars p [] = Inr []"
| "getitems cmpars p (n # ns) =
     and_then (getitem_params cmpars (n, p)) (\<lambda>a.
     and_then (getitems cmpars p ns) (\<lambda>rest. Inr (a # rest)))"

text \<open>
  The statement \<open>pdf[where] = (cmp_arr[where] - (y[where] \<plusminus> w[where])) ** 2\<close> of lines 141
  and 143, with the sign as \<open>pm\<close>.
\<close>

definition assign_where ::
  "(real \<Rightarrow> real \<Rightarrow> real) \<Rightarrow> Array \<Rightarrow> bool tensor \<Rightarrow> Array \<Rightarrow> Array \<Rightarrow> Array \<Rightarrow> error + Array" where
  "assign_where pm pdf whr cmp_arr y w =
     and_then (mask_get cmp_arr whr) (\<lambda>c.
     and_then (mask_get y whr) (\<lambda>ym.
     and_then (mask_get w whr) (\<lambda>wm.
     and_then (binop pm ym wm) (\<lambda>edge.
     and_then (binop (-) c edge) (\<lambda>d.
     mask_set pdf whr (map_tensor (\<lambda>v. v ^ 2) d))))))"

text \<open>Lines 139 to 143: the array \<open>pdf\<close> of the penalties.\<close>

definition penalties :: "Array \<Rightarrow> Array \<Rightarrow> Array \<Rightarrow> error + Array" where
  "penalties cmp_arr y w =
     (let pdf = zeros_like cmp_arr in
      and_then (binop (-) y w) (\<lambda>lower.
      and_then (binop (\<le>) cmp_arr lower) (\<lambda>whr.
      and_then (assign_where (-) pdf whr cmp_arr y w) (\<lambda>pdf.
      and_then (binop (+) y w) (\<lambda>upper.
      and_then (binop (\<ge>) cmp_arr upper) (\<lambda>whr.
      assign_where (+) pdf whr cmp_arr y w))))))"

definition ControlRegions_logpdf ::
  "ControlRegions \<Rightarrow> Params \<Rightarrow> Data \<Rightarrow> Model \<Rightarrow> Array option \<Rightarrow> error + real" where
  "ControlRegions_logpdf self mpars data model current_lnpdf =
     (let cmpars = model (attr_x self) in
      and_then (getitems cmpars (component_param_name self) (attr_y_names self)) (\<lambda>cols.
      and_then (stack1 cols) (\<lambda>cmp_arr.
      and_then (penalties cmp_arr (attr_y self) (attr_w self)) (\<lambda>pdf.
      Inr (- lamda self * sum_list (elems pdf))))))"

text \<open>
  What lines 139 to 143 leave at one element: 0, overwritten where the prediction is at
  or below the lower edge, overwritten again where it is at or above the upper edge.
\<close>

definition penalty :: "real \<Rightarrow> real \<Rightarrow> real \<Rightarrow> real" where
  "penalty predicted target wd =
     (let pdf = 0;
          pdf = (if predicted \<le> target - wd then (predicted - (target - wd)) ^ 2 else pdf);
          pdf = (if predicted \<ge> target + wd then (predicted - (target + wd)) ^ 2 else pdf)
      in pdf)"

section \<open>Properties of the skew-normal module\<close>


lemma and_then_Inr [simp]: "and_then (Inr x) f = f x"
  by (simp add: and_then_def)

lemma and_then_Inl [simp]: "and_then (Inl e) f = Inl e"
  by (simp add: and_then_def)

lemma erf_zero: "erf 0 = 0"
  by (simp add: erf_def)

lemma broadcast_rev_same: "broadcast_rev s s = Some s"
  by (induction s) simp_all

lemma broadcast_shapes_same: "broadcast_shapes s s = Some s"
  by (simp add: broadcast_shapes_def broadcast_rev_same)

lemma binop_same_shape:
  "shape a = s \<Longrightarrow> shape b = s \<Longrightarrow> binop f a b = Inr (Tensor s (map2 f (elems a) (elems b)))"
  by (simp add: binop_def broadcast_shapes_same expand_def)

lemma elementwise4_same_shape:
  assumes "shape a = s" "shape b = s" "shape c = s" "shape d = s"
    and "length (elems a) = n" "length (elems b) = n" "length (elems c) = n" "length (elems d) = n"
  shows "elementwise4 f a b c d =
    Inr (Tensor s (map (\<lambda>i. f (elems a ! i) (elems b ! i) (elems c ! i) (elems d ! i)) [0..<n]))"
proof -
  have "map (\<lambda>(((x, y), z), u). f x y z u) (zip (zip (zip (elems a) (elems b)) (elems c)) (elems d)) =
        map (\<lambda>i. f (elems a ! i) (elems b ! i) (elems c ! i) (elems d ! i)) [0..<n]"
    using assms(5-8) by (intro nth_equalityI) simp_all
  then show ?thesis
    using assms(1-4) by (simp add: elementwise4_def binop_same_shape)
qed

text \<open>
  Claim C1. For \<open>sigma > 0\<close>, \<open>skewnorm_logpdf\<close> is the standard Gaussian log-density
  \<open>-0.5*((value-loc)/sigma)^2 - log(sigma) - 0.5*log(2*pi)\<close> plus
  \<open>log(1 + erf(skew * (value - loc) / (sigma * sqrt(2))))\<close>.
\<close>

theorem skewnorm_logpdf_formula:
  "0 < sigma \<Longrightarrow>
   skewnorm_logpdf value loc sigma skew =
     - 0.5 * ((value - loc) / sigma) ^ 2 - ln sigma - 0.5 * ln (2 * pi)
     + ln (1 + erf (skew * (value - loc) / (sigma * sqrt 2)))"
  by (simp add: skewnorm_logpdf_def norm_logpdf_def sqrt2_def)

theorem skewnorm_logpdf_formula_witness:
  "(0::real) < 2 \<and>
   skewnorm_logpdf 3 1 2 5 =
     - 0.5 * ((3 - 1) / 2) ^ 2 - ln 2 - 0.5 * ln (2 * pi)
     + ln (1 + erf (5 * (3 - 1) / (2 * sqrt 2)))"
  using skewnorm_logpdf_formula [of 2 3 1 5] by simp

lemma and_then_always_Inl:
  "(\<And>x. \<exists>e. f x = Inl e) \<Longrightarrow> \<exists>e. and_then m f = Inl e"
  by (cases m) simp_all

lemma xp_log_IntArg: "xp_log (IntArg n) = Inl TypeError"
  by (simp add: xp_log_def)

lemma xp_log_ArrayArg: "xp_log (ArrayArg a) = Inr (map_tensor ln a)"
  by (simp add: xp_log_def)

lemma shape_map_tensor: "shape (map_tensor f t) = shape t"
  by (cases t) simp

lemma elems_map_tensor: "elems (map_tensor f t) = map f (elems t)"
  by (cases t) simp

lemma binop_shape_eq:
  "shape a = shape b \<Longrightarrow> binop f a b = Inr (Tensor (shape a) (map2 f (elems a) (elems b)))"
  by (simp add: binop_same_shape)

lemma log_truncation_term_raises:
  "\<exists>e. log_truncation_term ab loc sigma skew = Inl e"
  unfolding log_truncation_term_def Let_def xp_log_IntArg and_then_Inl
  by (rule and_then_always_Inl)+ simp

lemma log_truncation_term_same_shape:
  "shape loc = shape sigma \<Longrightarrow> log_truncation_term ab loc sigma skew = Inl TypeError"
  by (simp add: log_truncation_term_def Let_def xp_log_IntArg xp_log_ArrayArg binop_shape_eq
      shape_map_tensor)

text \<open>
  Claim C2 says that \<open>truncatedskewnorm_logpdf\<close> equals \<open>skewnorm_logpdf\<close> minus the
  closed-form truncation term \<open>log(erfb - erfa) + log(erfb + erfa + 2) - log(4)\<close>. The code
  returns nothing: \<open>log_truncation_term\<close> calls \<open>xp.log(4)\<close> on a Python number, which raises
  \<open>TypeError\<close>. So \<open>truncatedskewnorm_logpdf\<close> raises an error on every input, and
  \<open>TypeError\<close> whenever the four arrays have one shape.
\<close>

theorem truncatedskewnorm_logpdf_raises:
  "(\<exists>e. truncatedskewnorm_logpdf value loc sigma skew ab = Inl e) \<and>
   (shape value = shape loc \<and> shape loc = shape sigma \<and> shape sigma = shape skew \<longrightarrow>
      truncatedskewnorm_logpdf value loc sigma skew ab = Inl TypeError)"
proof
  have t: "\<exists>e. and_then (log_truncation_term ab loc sigma skew) f = Inl e"
    for f :: "Array \<Rightarrow> error + Array"
    using log_truncation_term_raises [of ab loc sigma skew] by auto
  show "\<exists>e. truncatedskewnorm_logpdf value loc sigma skew ab = Inl e"
    unfolding truncatedskewnorm_logpdf_def by (rule and_then_always_Inl) (rule t)
next
  show "shape value = shape loc \<and> shape loc = shape sigma \<and> shape sigma = shape skew \<longrightarrow>
      truncatedskewnorm_logpdf value loc sigma skew ab = Inl TypeError"
    by (simp add: truncatedskewnorm_logpdf_def elementwise4_def binop_shape_eq
        log_truncation_term_same_shape)
qed

theorem truncatedskewnorm_logpdf_raises_witness:
  "shape (Tensor [1] [3 :: real]) = shape (Tensor [1] [1 :: real]) \<and>
   shape (Tensor [1] [1 :: real]) = shape (Tensor [1] [2 :: real]) \<and>
   shape (Tensor [1] [2 :: real]) = shape (Tensor [1] [5 :: real]) \<and>
   truncatedskewnorm_logpdf (Tensor [1] [3]) (Tensor [1] [1]) (Tensor [1] [2]) (Tensor [1] [5]) (0, 4) =
     Inl TypeError"
  using truncatedskewnorm_logpdf_raises
    [of "Tensor [1] [3]" "Tensor [1] [1]" "Tensor [1] [2]" "Tensor [1] [5]" "(0, 4)"]
  by simp

text \<open>
  Claim C7. For \<open>sigma > 0\<close>, \<open>skewnorm_logpdf\<close> with \<open>skew = 0\<close> is \<open>norm_logpdf\<close> at
  every value (the term \<open>log(1 + erf(0))\<close> vanishes), and at \<open>value = loc\<close> it is
  \<open>-log(sigma) - 0.5*log(2*pi)\<close>.
\<close>

theorem skewnorm_logpdf_zero_skew:
  "0 < sigma \<Longrightarrow>
   skewnorm_logpdf value loc sigma 0 = norm_logpdf value loc sigma \<and>
   skewnorm_logpdf loc loc sigma 0 = - ln sigma - 0.5 * ln (2 * pi)"
  by (simp add: skewnorm_logpdf_def norm_logpdf_def erf_zero)


theorem skewnorm_logpdf_zero_skew_witness:
  "(0::real) < 2 \<and>
   skewnorm_logpdf 3 1 2 0 = norm_logpdf 3 1 2 \<and>
   skewnorm_logpdf 1 1 2 0 = - ln 2 - 0.5 * ln (2 * pi)"
  using skewnorm_logpdf_zero_skew [of 2 3 1] by simp

lemma shape_clip: "shape (clip x lo) = shape x"
  by (cases x) (simp add: clip_def)

lemma elems_clip: "elems (clip x lo) = map (\<lambda>v. max v lo) (elems x)"
  by (cases x) (simp add: clip_def)

text \<open>
  For arrays of one shape, \<open>SkewNormal.ln_likelihood\<close> is \<open>skewnorm_logpdf\<close> applied,
  element by element, to the data column of the configured coordinate \<open>c\<close> with
  \<open>loc = mpars[(c, 'mu')]\<close>, \<open>sigma = mpars[(c, 'sigma')]\<close> raised to at least \<open>1e-10\<close> and
  \<open>skew = mpars[(c, 'skew')]\<close> raised to at least \<open>1e-10\<close>.
\<close>

lemma SkewNormal_ln_likelihood_same_shape:
  assumes "coord_names self = [c]"
    and "getitem_str data c = Inr value"
    and "mpars (c, ''mu'') = Some mu"
    and "mpars (c, ''sigma'') = Some sigma"
    and "mpars (c, ''skew'') = Some skew"
    and "shape value = s" "shape mu = s" "shape sigma = s" "shape skew = s"
    and "length (elems value) = n" "length (elems mu) = n"
    and "length (elems sigma) = n" "length (elems skew) = n"
  shows "SkewNormal_ln_likelihood self mpars data =
           Inr (Tensor s (map (\<lambda>i. skewnorm_logpdf (elems value ! i) (elems mu ! i)
                                     (max (elems sigma ! i) (1 / 10 ^ 10))
                                     (max (elems skew ! i) (1 / 10 ^ 10))) [0..<n]))"
proof -
  have ew: "elementwise4 f value mu (clip sigma lo) (clip skew lo) =
      Inr (Tensor s (map (\<lambda>i. f (elems value ! i) (elems mu ! i)
                                 (max (elems sigma ! i) lo) (max (elems skew ! i) lo)) [0..<n]))" for f lo
  proof -
    have sh: "shape (clip sigma lo) = s" "shape (clip skew lo) = s"
      using assms(8,9) by (simp_all add: shape_clip)
    have len: "length (elems (clip sigma lo)) = n" "length (elems (clip skew lo)) = n"
      using assms(12,13) by (simp_all add: elems_clip)
    show ?thesis
      unfolding elementwise4_same_shape [OF assms(6,7) sh assms(10,11) len]
      using assms(12,13) by (simp add: elems_clip)
  qed
  show ?thesis
    using assms(1-5)
    by (simp add: SkewNormal_ln_likelihood_def first_coord_def getitem_params_def ew)
qed

text \<open>
  Claim C5 says that \<open>SkewNormal.ln_likelihood\<close> returns \<open>skewnorm_logpdf\<close> of the data
  column and the clipped parameters, and that \<open>TruncatedSkewNormal.ln_likelihood\<close> does the
  same through \<open>truncatedskewnorm_logpdf\<close> with the configured bound. The second returns
  nothing: after the same look-ups and clipping it calls \<open>truncatedskewnorm_logpdf\<close>, which
  raises at \<open>xp.log(4)\<close>. So \<open>TruncatedSkewNormal.ln_likelihood\<close> raises an error on every
  input, and \<open>TypeError\<close> whenever the look-ups succeed and the arrays have one shape.
\<close>

theorem TruncatedSkewNormal_ln_likelihood_raises:
  "(\<exists>e. TruncatedSkewNormal_ln_likelihood self mpars data = Inl e) \<and>
   (coord_names self = [c] \<and> getitem_str data c = Inr value \<and>
    mpars (c, ''mu'') = Some mu \<and> mpars (c, ''sigma'') = Some sigma \<and>
    mpars (c, ''skew'') = Some skew \<and> coord_bounds self c = Some ab \<and>
    shape value = shape mu \<and> shape mu = shape sigma \<and> shape sigma = shape skew \<longrightarrow>
      TruncatedSkewNormal_ln_likelihood self mpars data = Inl TypeError)"
proof
  have r: "\<exists>e. truncatedskewnorm_logpdf v l sg sk b = Inl e" for v l sg sk b
  proof -
    have t: "\<exists>e. and_then (log_truncation_term b l sg sk) f = Inl e"
      for f :: "Array \<Rightarrow> error + Array"
      using log_truncation_term_raises [of b l sg sk] by auto
    show ?thesis
      unfolding truncatedskewnorm_logpdf_def by (rule and_then_always_Inl) (rule t)
  qed
  show "\<exists>e. TruncatedSkewNormal_ln_likelihood self mpars data = Inl e"
    unfolding TruncatedSkewNormal_ln_likelihood_def by (rule and_then_always_Inl)+ (rule r)
next
  have "truncatedskewnorm_logpdf v l (clip sg lo) (clip sk lo) b = Inl TypeError"
    if "shape v = shape l" "shape l = shape sg" "shape sg = shape sk" for v l sg sk lo b
    using that
    by (simp add: truncatedskewnorm_logpdf_def elementwise4_def binop_shape_eq
        log_truncation_term_same_shape shape_clip)
  then show "coord_names self = [c] \<and> getitem_str data c = Inr value \<and>
    mpars (c, ''mu'') = Some mu \<and> mpars (c, ''sigma'') = Some sigma \<and>
    mpars (c, ''skew'') = Some skew \<and> coord_bounds self c = Some ab \<and>
    shape value = shape mu \<and> shape mu = shape sigma \<and> shape sigma = shape skew \<longrightarrow>
      TruncatedSkewNormal_ln_likelihood self mpars data = Inl TypeError"
    by (simp add: TruncatedSkewNormal_ln_likelihood_def first_coord_def getitem_params_def
        getitem_bounds_def)
qed

theorem TruncatedSkewNormal_ln_likelihood_raises_witness:
  "getitem_str \<lparr>array = Tensor [2, 1] [1, 3], names = [''phi2'']\<rparr> ''phi2'' = Inr (Tensor [2] [1, 3]) \<and>
   TruncatedSkewNormal_ln_likelihood \<lparr>coord_names = [''phi2''], coord_bounds = [''phi2'' \<mapsto> (0, 4)]\<rparr>
       [(''phi2'', ''mu'') \<mapsto> Tensor [2] [1, 2], (''phi2'', ''sigma'') \<mapsto> Tensor [2] [0, 1],
        (''phi2'', ''skew'') \<mapsto> Tensor [2] [- 1, 2]]
       \<lparr>array = Tensor [2, 1] [1, 3], names = [''phi2'']\<rparr> = Inl TypeError"
proof -
  have g: "getitem_str \<lparr>array = Tensor [2, 1] [1, 3], names = [''phi2'']\<rparr> ''phi2'' = Inr (Tensor [2] [1, 3])"
    by (simp add: getitem_str_def select_column_def name_index_def upt_rec)
  show ?thesis
    using g TruncatedSkewNormal_ln_likelihood_raises
      [of "\<lparr>coord_names = [''phi2''], coord_bounds = [''phi2'' \<mapsto> (0, 4)]\<rparr>"
          "[(''phi2'', ''mu'') \<mapsto> Tensor [2] [1, 2], (''phi2'', ''sigma'') \<mapsto> Tensor [2] [0, 1],
            (''phi2'', ''skew'') \<mapsto> Tensor [2] [- 1, 2]]"
          "\<lparr>array = Tensor [2, 1] [1, 3], names = [''phi2'']\<rparr>"
          "''phi2''" "Tensor [2] [1, 3]" "Tensor [2] [1, 2]" "Tensor [2] [0, 1]" "Tensor [2] [- 1, 2]" "(0, 4)"]
    by simp
qed

text \<open>
  Claim C6. Constructing a \<open>SkewNormal\<close> or a \<open>TruncatedSkewNormal\<close> with a number of
  coordinate names other than one raises an error, the \<open>ValueError\<close> of this validation
  when the base class's hook passed; with exactly one name this validation raises nothing:
  the result is that of the base class's hook.
\<close>

theorem post_init_coord_count:
  "(length (coord_names self) \<noteq> 1 \<longrightarrow>
      (\<exists>e. SkewNormal_post_init super_post_init self = Inl e) \<and>
      (\<exists>e. TruncatedSkewNormal_post_init super_post_init self = Inl e) \<and>
      (super_post_init self = Inr () \<longrightarrow>
         SkewNormal_post_init super_post_init self =
           Inl (ValueError ''Only one coordinate is supported, e.g ('phi2',)'') \<and>
         TruncatedSkewNormal_post_init super_post_init self =
           Inl (ValueError ''Only one coordinate is supported, e.g ('phi2',)''))) \<and>
   (length (coord_names self) = 1 \<longrightarrow>
      SkewNormal_post_init super_post_init self = super_post_init self \<and>
      TruncatedSkewNormal_post_init super_post_init self = super_post_init self)"
  by (cases "super_post_init self")
     (simp_all add: SkewNormal_post_init_def TruncatedSkewNormal_post_init_def)

theorem post_init_coord_count_witness:
  "length (coord_names \<lparr>coord_names = [''phi1'', ''phi2''], coord_bounds = Map.empty\<rparr>) \<noteq> 1 \<and>
   SkewNormal_post_init (\<lambda>_. Inr ()) \<lparr>coord_names = [''phi1'', ''phi2''], coord_bounds = Map.empty\<rparr> =
     Inl (ValueError ''Only one coordinate is supported, e.g ('phi2',)'') \<and>
   TruncatedSkewNormal_post_init (\<lambda>_. Inr ()) \<lparr>coord_names = [''phi1'', ''phi2''], coord_bounds = Map.empty\<rparr> =
     Inl (ValueError ''Only one coordinate is supported, e.g ('phi2',)'') \<and>
   length (coord_names \<lparr>coord_names = [''phi2''], coord_bounds = Map.empty\<rparr>) = 1 \<and>
   SkewNormal_post_init (\<lambda>_. Inr ()) \<lparr>coord_names = [''phi2''], coord_bounds = Map.empty\<rparr> = Inr () \<and>
   TruncatedSkewNormal_post_init (\<lambda>_. Inr ()) \<lparr>coord_names = [''phi2''], coord_bounds = Map.empty\<rparr> = Inr ()"
  using post_init_coord_count
      [of "\<lparr>coord_names = [''phi1'', ''phi2''], coord_bounds = Map.empty\<rparr>" "\<lambda>_. Inr ()"]
    post_init_coord_count
      [of "\<lparr>coord_names = [''phi2''], coord_bounds = Map.empty\<rparr>" "\<lambda>_. Inr ()"]
  by simp

section \<open>Properties of the control-region prior\<close>


lemma selected_Nil [simp]: "selected [] bs = []" "selected xs [] = []"
  by (simp_all add: selected_def)

lemma selected_Cons [simp]:
  "selected (x # xs) (b # bs) = (if b then x # selected xs bs else selected xs bs)"
  by (simp add: selected_def)

lemma map_selected: "map g (selected xs bs) = selected (map g xs) bs"
  by (induction xs arbitrary: bs) (case_tac bs; simp)+

lemma selected_map2:
  "length xs = length bs \<Longrightarrow> length bs = length ys \<Longrightarrow>
   map2 f (selected xs bs) (selected ys bs) = selected (map2 f xs ys) bs"
  by (induction xs bs ys rule: list_induct3) simp_all

lemma put_masked_selected:
  "length ps = length bs \<Longrightarrow> length bs = length vs \<Longrightarrow>
   put_masked ps bs (selected vs bs) = map (\<lambda>(p, v, b). if b then v else p) (zip ps (zip vs bs))"
proof (induction ps bs vs rule: list_induct3)
  case Nil
  then show ?case by simp
next
  case (Cons p ps b bs v vs)
  then show ?case
    by (cases "selected vs bs") simp_all
qed

lemma assign_where_same_shape:
  assumes "shape pdf = s" "shape whr = s" "shape c = s" "shape y = s" "shape w = s"
    and "length (elems pdf) = n" "length (elems whr) = n" "length (elems c) = n"
    and "length (elems y) = n" "length (elems w) = n"
  shows "assign_where pm pdf whr c y w =
    Inr (Tensor s (map (\<lambda>i. if elems whr ! i then (elems c ! i - pm (elems y ! i) (elems w ! i)) ^ 2
                              else elems pdf ! i) [0..<n]))"
proof -
  let ?bs = "elems whr"
  let ?v = "map2 (\<lambda>ci e. (ci - e) ^ 2) (elems c) (map2 pm (elems y) (elems w))"
  have "map2 pm (selected (elems y) ?bs) (selected (elems w) ?bs) =
        selected (map2 pm (elems y) (elems w)) ?bs"
    using assms(7-10) by (intro selected_map2) simp_all
  moreover have "map2 (-) (selected (elems c) ?bs) (selected (map2 pm (elems y) (elems w)) ?bs) =
        selected (map2 (-) (elems c) (map2 pm (elems y) (elems w))) ?bs"
    using assms(7-10) by (intro selected_map2) simp_all
  moreover have "map (\<lambda>v. v ^ 2) (map2 (-) (elems c) (map2 pm (elems y) (elems w))) = ?v"
    by (simp add: split_def)
  ultimately have sel: "map (\<lambda>v. v ^ 2) (map2 (-) (selected (elems c) ?bs)
               (map2 pm (selected (elems y) ?bs) (selected (elems w) ?bs))) = selected ?v ?bs"
    by (simp only: map_selected)
  have put: "put_masked (elems pdf) ?bs (selected ?v ?bs) =
      map (\<lambda>i. if elems whr ! i then (elems c ! i - pm (elems y ! i) (elems w ! i)) ^ 2
                else elems pdf ! i) [0..<n]"
    using assms(6-10)
    by (subst put_masked_selected) (auto intro!: nth_equalityI)
  let ?k = "count_true whr"
  have g: "mask_get c whr = Inr (Tensor [?k] (selected (elems c) ?bs))"
    "mask_get y whr = Inr (Tensor [?k] (selected (elems y) ?bs))"
    "mask_get w whr = Inr (Tensor [?k] (selected (elems w) ?bs))"
    using assms(2-5) by (simp_all add: mask_get_def)
  have b1: "binop pm (Tensor [?k] (selected (elems y) ?bs)) (Tensor [?k] (selected (elems w) ?bs)) =
      Inr (Tensor [?k] (map2 pm (selected (elems y) ?bs) (selected (elems w) ?bs)))"
    by (simp add: binop_same_shape)
  have b2: "binop (-) (Tensor [?k] (selected (elems c) ?bs)) (Tensor [?k] zs) =
      Inr (Tensor [?k] (map2 (-) (selected (elems c) ?bs) zs))" for zs
    by (simp add: binop_same_shape)
  have ms: "mask_set pdf whr (map_tensor (\<lambda>v. v ^ 2) (Tensor [?k] zs)) =
      Inr (Tensor s (put_masked (elems pdf) ?bs (map (\<lambda>v. v ^ 2) zs)))" for zs
    using assms(1,2) by (simp add: mask_set_def)
  show ?thesis
    by (simp only: assign_where_def g and_then_Inr b1 b2 ms sel put)
qed


lemma penalties_same_shape:
  assumes "shape c = s" "shape y = s" "shape w = s"
    and "length (elems c) = n" "length (elems y) = n" "length (elems w) = n"
  shows "penalties c y w =
    Inr (Tensor s (map (\<lambda>i. penalty (elems c ! i) (elems y ! i) (elems w ! i)) [0..<n]))"
proof -
  let ?pdf0 = "zeros_like c"
  let ?m1 = "Tensor s (map2 (\<le>) (elems c) (map2 (-) (elems y) (elems w)))"
  let ?pdf1 = "Tensor s (map (\<lambda>i. if elems ?m1 ! i
                  then (elems c ! i - (elems y ! i - elems w ! i)) ^ 2 else elems ?pdf0 ! i) [0..<n])"
  let ?m2 = "Tensor s (map2 (\<ge>) (elems c) (map2 (+) (elems y) (elems w)))"
  have lower: "binop (-) y w = Inr (Tensor s (map2 (-) (elems y) (elems w)))"
    using assms(2,3) by (rule binop_same_shape)
  have m1: "binop (\<le>) c (Tensor s (map2 (-) (elems y) (elems w))) = Inr ?m1"
    using assms(1) by (simp add: binop_same_shape)
  have upper: "binop (+) y w = Inr (Tensor s (map2 (+) (elems y) (elems w)))"
    using assms(2,3) by (rule binop_same_shape)
  have m2: "binop (\<ge>) c (Tensor s (map2 (+) (elems y) (elems w))) = Inr ?m2"
    using assms(1) by (simp add: binop_same_shape)
  have a1: "assign_where (-) ?pdf0 ?m1 c y w = Inr ?pdf1"
    using assms by (intro assign_where_same_shape)
      (simp_all add: zeros_like_def shape_map_tensor elems_map_tensor)
  have a2: "assign_where (+) ?pdf1 ?m2 c y w =
      Inr (Tensor s (map (\<lambda>i. if elems ?m2 ! i
                  then (elems c ! i - (elems y ! i + elems w ! i)) ^ 2 else elems ?pdf1 ! i) [0..<n]))"
    using assms by (intro assign_where_same_shape) simp_all
  have fin: "map (\<lambda>i. if elems ?m2 ! i
                  then (elems c ! i - (elems y ! i + elems w ! i)) ^ 2 else elems ?pdf1 ! i) [0..<n] =
      map (\<lambda>i. penalty (elems c ! i) (elems y ! i) (elems w ! i)) [0..<n]"
    using assms(4-6)
    by (intro nth_equalityI) (simp_all add: penalty_def zeros_like_def elems_map_tensor)
  show ?thesis
    by (simp only: penalties_def Let_def lower m1 upper m2 a1 a2 and_then_Inr fin)
qed

lemma and_then_eq_Inr:
  "and_then m f = Inr r \<longleftrightarrow> (\<exists>x. m = Inr x \<and> f x = Inr r)"
  by (cases m) simp_all

lemma put_masked_nonneg:
  "\<forall>p \<in> set ps. (0::real) \<le> p \<Longrightarrow> \<forall>v \<in> set vs. 0 \<le> v \<Longrightarrow> \<forall>x \<in> set (put_masked ps bs vs). 0 \<le> x"
  by (induction ps bs vs rule: put_masked.induct) auto

lemma mask_set_elems:
  "mask_set a m v = Inr r \<Longrightarrow> elems r = put_masked (elems a) (elems m) (elems v)"
  by (cases "shape m = shape a"; cases "shape v = [count_true m]") (auto simp: mask_set_def)

lemma assign_where_nonneg:
  assumes "assign_where pm pdf whr c y w = Inr pdf'" and "\<forall>p \<in> set (elems pdf). 0 \<le> p"
  shows "\<forall>p \<in> set (elems pdf'). 0 \<le> p"
proof -
  from assms(1) obtain d where "mask_set pdf whr (map_tensor (\<lambda>v. v ^ 2) d) = Inr pdf'"
    unfolding assign_where_def and_then_eq_Inr by blast
  then have e: "elems pdf' = put_masked (elems pdf) (elems whr) (map (\<lambda>v. v ^ 2) (elems d))"
    by (simp add: mask_set_elems elems_map_tensor)
  have "\<forall>v \<in> set (map (\<lambda>v. v ^ 2) (elems d)). (0::real) \<le> v"
    by simp
  with assms(2) show ?thesis
    unfolding e by (rule put_masked_nonneg)
qed

lemma penalties_nonneg:
  assumes "penalties c y w = Inr pdf"
  shows "\<forall>p \<in> set (elems pdf). 0 \<le> p"
proof -
  from assms obtain whr1 pdf1 whr2 where
    a1: "assign_where (-) (zeros_like c) whr1 c y w = Inr pdf1" and
    a2: "assign_where (+) pdf1 whr2 c y w = Inr pdf"
    unfolding penalties_def Let_def and_then_eq_Inr by blast
  have "\<forall>p \<in> set (elems (zeros_like c)). 0 \<le> p"
    by (simp add: zeros_like_def elems_map_tensor)
  then have "\<forall>p \<in> set (elems pdf1). 0 \<le> p"
    by (rule assign_where_nonneg [OF a1])
  then show ?thesis
    by (rule assign_where_nonneg [OF a2])
qed



subsection \<open>The elementwise penalty\<close>

lemma penalty_max:
  "0 \<le> wd \<Longrightarrow> penalty p t wd = (max 0 (t - wd - p)) ^ 2 + (max 0 (p - (t + wd))) ^ 2"
  by (auto simp: penalty_def Let_def max_def power2_commute)

lemma penalty_continuous:
  assumes "0 \<le> wd"
  shows "continuous_on UNIV (\<lambda>p. penalty p t wd)"
proof -
  have "continuous_on UNIV (\<lambda>p. (max 0 (t - wd - p)) ^ 2 + (max 0 (p - (t + wd))) ^ 2)"
    by (intro continuous_intros)
  then show ?thesis
    using assms by (simp add: penalty_max)
qed

text \<open>
  Claim C3, for widths that are not negative. For arrays of one shape, the array of
  penalties is computed, and at every control point with \<open>width \<ge> 0\<close> the penalty is 0
  when the predicted value lies strictly inside \<open>(target - width, target + width)\<close>, is
  \<open>(predicted - (target - width))^2\<close> when \<open>predicted <= target - width\<close>, and is
  \<open>(predicted - (target + width))^2\<close> when \<open>predicted >= target + width\<close>; hence it is
  strictly positive strictly outside the band, 0 at both edges, and a continuous function
  of the predicted value.
\<close>

theorem control_region_penalty_cases:
  assumes "shape c = s" "shape y = s" "shape w = s"
    and "length (elems c) = n" "length (elems y) = n" "length (elems w) = n"
    and "i < n" and "0 \<le> elems w ! i"
  shows "\<exists>pdf. penalties c y w = Inr pdf \<and> shape pdf = s \<and> length (elems pdf) = n \<and>
     (let predicted = elems c ! i; target = elems y ! i; wd = elems w ! i; v = elems pdf ! i in
        (target - wd < predicted \<and> predicted < target + wd \<longrightarrow> v = 0) \<and>
        (predicted \<le> target - wd \<longrightarrow> v = (predicted - (target - wd)) ^ 2) \<and>
        (predicted \<ge> target + wd \<longrightarrow> v = (predicted - (target + wd)) ^ 2) \<and>
        (predicted < target - wd \<or> target + wd < predicted \<longrightarrow> 0 < v) \<and>
        (predicted = target - wd \<or> predicted = target + wd \<longrightarrow> v = 0) \<and>
        v = penalty predicted target wd \<and>
        continuous_on UNIV (\<lambda>x. penalty x target wd))"
proof -
  let ?pdf = "Tensor s (map (\<lambda>i. penalty (elems c ! i) (elems y ! i) (elems w ! i)) [0..<n])"
  have "penalties c y w = Inr ?pdf"
    using assms(1-6) by (rule penalties_same_shape)
  moreover have "elems ?pdf ! i = penalty (elems c ! i) (elems y ! i) (elems w ! i)"
    using assms(7) by simp
  moreover have "continuous_on UNIV (\<lambda>x. penalty x (elems y ! i) (elems w ! i))"
    using assms(8) by (rule penalty_continuous)
  moreover have "penalty p t wd = 0" if "t - wd < p" "p < t + wd" for p t wd :: real
    using that by (simp add: penalty_def)
  moreover have "penalty p t wd = (p - (t - wd)) ^ 2" if "p \<le> t - wd" "0 \<le> wd" for p t wd :: real
    using that by (auto simp: penalty_def)
  moreover have "penalty p t wd = (p - (t + wd)) ^ 2" if "p \<ge> t + wd" for p t wd :: real
    using that by (simp add: penalty_def)
  ultimately show ?thesis
    using assms(8) by (intro exI [of _ ?pdf]) (auto simp: Let_def)
qed

theorem control_region_penalty_cases_witness:
  "(0::nat) < 1 \<and> (0::real) \<le> elems (Tensor [1, 1] [1 / 2]) ! 0 \<and>
   (\<exists>pdf. penalties (Tensor [1, 1] [3]) (Tensor [1, 1] [2]) (Tensor [1, 1] [1 / 2]) = Inr pdf \<and>
          shape pdf = [1, 1] \<and> elems pdf ! 0 = 1 / 4)"
  using control_region_penalty_cases
    [of "Tensor [1, 1] [3]" "[1, 1]" "Tensor [1, 1] [2]" "Tensor [1, 1] [1 / 2]" 1 0]
  by (auto simp: Let_def power2_eq_square)

text \<open>
  With the negative width \<open>-1\<close>, target 0 and predicted value \<open>1/2\<close>, the predicted value
  is at most \<open>target - width = 1\<close>, but the second assignment overwrites the first: the
  penalty is \<open>(1/2 - (0 + (-1)))^2 = 9/4\<close>, not \<open>(1/2 - (0 - (-1)))^2 = 1/4\<close>.
\<close>

theorem control_region_penalty_negative_width:
  "(1 / 2 :: real) \<le> 0 - (- 1) \<and>
   penalties (Tensor [1, 1] [1 / 2]) (Tensor [1, 1] [0]) (Tensor [1, 1] [- 1]) = Inr (Tensor [1, 1] [9 / 4]) \<and>
   (9 / 4 :: real) \<noteq> (1 / 2 - (0 - (- 1))) ^ 2"
  by (simp add: penalties_same_shape [of _ "[1, 1]" _ _ 1] penalty_def power2_eq_square)



subsection \<open>The returned value\<close>

text \<open>
  When the stacked predictions have the shape of the stored targets and widths, \<open>logpdf\<close>
  returns \<open>-lamda\<close> times the sum of the elementwise penalties.
\<close>

lemma logpdf_same_shape:
  assumes "getitems (model (attr_x self)) (component_param_name self) (attr_y_names self) = Inr cols"
    and "stack1 cols = Inr cmp_arr"
    and "shape cmp_arr = s" "shape (attr_y self) = s" "shape (attr_w self) = s"
    and "length (elems cmp_arr) = n" "length (elems (attr_y self)) = n" "length (elems (attr_w self)) = n"
  shows "ControlRegions_logpdf self mpars data model current_lnpdf =
    Inr (- lamda self * (\<Sum>i<n. penalty (elems cmp_arr ! i) (elems (attr_y self) ! i) (elems (attr_w self) ! i)))"
proof -
  have "sum_list (map f [0..<n]) = (\<Sum>i<n. f i)" for f :: "nat \<Rightarrow> real"
    by (simp add: interv_sum_list_conv_sum_set_nat atLeast0LessThan)
  then show ?thesis
    using assms(1,2)
    by (simp add: ControlRegions_logpdf_def penalties_same_shape [OF assms(3-8)])
qed

text \<open>
  Claim C4 says that \<open>logpdf\<close> returns \<open>-lamda\<close> times the sum of the penalties over all
  (control point, dependent column) pairs, for every model. For a prior with one control
  point and two dependent columns it returns nothing: \<open>__post_init__\<close> squeezes the targets
  of shape \<open>(1, 2)\<close> to \<open>(2,)\<close> and \<open>_atleast_2d\<close> makes them \<open>(2, 1)\<close>, the predictions are
  stacked to shape \<open>(1, 2)\<close>, the comparison broadcasts to a mask of shape \<open>(2, 2)\<close>, and
  indexing \<open>cmp_arr\<close> by it raises \<open>IndexError\<close>, whatever the values and \<open>lamda\<close> are.
\<close>

theorem logpdf_single_point_two_columns:
  "and_then (ControlRegions_post_init
               \<lparr>array = Tensor [1, 3] [x0, t1, t2], names = [''phi1'', ''phi2'', ''pmra'']\<rparr>
               (Inl wd) lam ''phi1'' ''mu'')
     (\<lambda>self. ControlRegions_logpdf self mpars data
        (\<lambda>_. [(''phi2'', ''mu'') \<mapsto> Tensor [1] [p1], (''pmra'', ''mu'') \<mapsto> Tensor [1] [p2]])
        current_lnpdf) = Inl IndexError"
proof -
  have u: "[0..<Suc 0] = [0]" "[0..<2] = [0, Suc 0]"
    by (simp_all add: upt_rec)
  have "ControlRegions_post_init
          \<lparr>array = Tensor [1, 3] [x0, t1, t2], names = [''phi1'', ''phi2'', ''pmra'']\<rparr>
          (Inl wd) lam ''phi1'' ''mu'' =
        Inr \<lparr>center = \<lparr>array = Tensor [1, 3] [x0, t1, t2], names = [''phi1'', ''phi2'', ''pmra'']\<rparr>,
             width = Inl wd, lamda = lam, coord_name = ''phi1'', component_param_name = ''mu'',
             attr_x = \<lparr>array = Tensor [1, 1] [x0], names = [''phi1'']\<rparr>,
             attr_y_names = [''phi2'', ''pmra''], attr_y = Tensor [2, 1] [t1, t2],
             attr_w = Tensor [2, 1] [wd, wd]\<rparr>"
    by (simp add: ControlRegions_post_init_def getitem_names_def select_columns_def name_index_def
        squeeze_def atleast_2d_def ndim_def ones_like_def u Let_def numeral_2_eq_2)
  moreover have "stack1 [Tensor [1] [p1], Tensor [1] [p2]] = Inr (Tensor [1, 2] [p1, p2])"
    by (simp add: stack1_def u)
  moreover have "penalties (Tensor [1, 2] [p1, p2]) (Tensor [2, 1] [t1, t2]) (Tensor [2, 1] [wd, wd]) =
      Inl IndexError"
    by (simp add: penalties_def binop_def broadcast_shapes_def expand_def zeros_like_def
        assign_where_def mask_get_def)
  ultimately show ?thesis
    by (simp add: ControlRegions_logpdf_def getitem_params_def)
qed

text \<open>
  Claim C9. For every prior, \<open>mpars\<close>, \<open>data\<close> and model, \<open>logpdf\<close> gives the same result
  for any two values of \<open>current_lnpdf\<close>, \<open>None\<close> included: the argument is not read, and
  nothing is added to the returned term.
\<close>

theorem logpdf_ignores_current_lnpdf:
  "ControlRegions_logpdf self mpars data model c1 = ControlRegions_logpdf self mpars data model c2"
  by (simp add: ControlRegions_logpdf_def)

text \<open>
  Claim C10. For every prior with \<open>lamda \<ge> 0\<close> and every \<open>mpars\<close>, \<open>data\<close> and model, a value
  returned by \<open>logpdf\<close> is at most 0: every penalty is 0 or a square, so their sum is not
  negative.
\<close>

theorem logpdf_nonpositive:
  assumes "0 \<le> lamda self"
    and "ControlRegions_logpdf self mpars data model current_lnpdf = Inr r"
  shows "r \<le> 0"
proof -
  from assms(2) obtain pdf cmp_arr where
    p: "penalties cmp_arr (attr_y self) (attr_w self) = Inr pdf" and
    r: "r = - lamda self * sum_list (elems pdf)"
    by (auto simp: ControlRegions_logpdf_def Let_def and_then_eq_Inr)
  have "0 \<le> sum_list (elems pdf)"
    using penalties_nonneg [OF p] by (simp add: sum_list_nonneg)
  with assms(1) show ?thesis
    unfolding r by (simp add: mult_nonneg_nonneg)
qed



theorem logpdf_nonpositive_witness:
  "(0::real) \<le> lamda \<lparr>center = \<lparr>array = Tensor [1, 2] [10, 2], names = [''phi1'', ''phi2'']\<rparr>,
             width = Inl 0.5, lamda = 0.05, coord_name = ''phi1'', component_param_name = ''mu'',
             attr_x = \<lparr>array = Tensor [1, 1] [10], names = [''phi1'']\<rparr>, attr_y_names = [''phi2''],
             attr_y = Tensor [1, 1] [2], attr_w = Tensor [1, 1] [0.5]\<rparr> \<and>
   ControlRegions_logpdf \<lparr>center = \<lparr>array = Tensor [1, 2] [10, 2], names = [''phi1'', ''phi2'']\<rparr>,
             width = Inl 0.5, lamda = 0.05, coord_name = ''phi1'', component_param_name = ''mu'',
             attr_x = \<lparr>array = Tensor [1, 1] [10], names = [''phi1'']\<rparr>, attr_y_names = [''phi2''],
             attr_y = Tensor [1, 1] [2], attr_w = Tensor [1, 1] [0.5]\<rparr>
      Map.empty \<lparr>array = Tensor [0, 2] [], names = [''phi1'', ''phi2'']\<rparr>
      (\<lambda>_. [(''phi2'', ''mu'') \<mapsto> Tensor [1] [3]]) None = Inr (- 0.0125) \<and>
   (- 0.0125 :: real) \<le> 0"
proof -
  let ?self = "\<lparr>center = \<lparr>array = Tensor [1, 2] [10, 2], names = [''phi1'', ''phi2'']\<rparr>,
             width = Inl 0.5, lamda = 0.05, coord_name = ''phi1'', component_param_name = ''mu'',
             attr_x = \<lparr>array = Tensor [1, 1] [10], names = [''phi1'']\<rparr>, attr_y_names = [''phi2''],
             attr_y = Tensor [1, 1] [2], attr_w = Tensor [1, 1] [0.5 :: real]\<rparr>"
  have u: "[0..<Suc 0] = [0]"
    by (simp add: upt_rec)
  have lp: "ControlRegions_logpdf ?self Map.empty \<lparr>array = Tensor [0, 2] [], names = [''phi1'', ''phi2'']\<rparr>
      (\<lambda>_. [(''phi2'', ''mu'') \<mapsto> Tensor [1] [3]]) None = Inr (- 0.0125)"
    by (simp add: ControlRegions_logpdf_def getitem_params_def stack1_def u
        penalties_same_shape [of _ "[1, 1]" _ _ 1] penalty_def power2_eq_square)
  have l: "0 \<le> lamda ?self"
    by simp
  from logpdf_nonpositive [OF l lp] l lp show ?thesis
    by simp
qed



text \<open>
  Claim C8. The prior constructed from one control point at coordinate value 10.0 with the
  dependent target 2.0 (in a column of any name \<open>n\<close>), width 0.5 and lamda 0.05: if the
  model predicts \<open>mu = 2.0\<close> at that point, \<open>logpdf\<close> returns 0; if it predicts \<open>mu = 3.0\<close>,
  the penalty is \<open>(3.0 - 2.5)^2 = 0.25\<close> and \<open>logpdf\<close> returns \<open>-0.05 * 0.25 = -0.0125\<close>.
\<close>

theorem control_region_example:
  assumes "n \<noteq> ''phi1''"
    and "model \<lparr>array = Tensor [1, 1] [10], names = [''phi1'']\<rparr> (n, ''mu'') = Some (Tensor [1] [p])"
  shows "\<exists>self. ControlRegions_post_init \<lparr>array = Tensor [1, 2] [10, 2], names = [''phi1'', n]\<rparr>
                  (Inl 0.5) 0.05 ''phi1'' ''mu'' = Inr self \<and>
     attr_x self = \<lparr>array = Tensor [1, 1] [10], names = [''phi1'']\<rparr> \<and>
     (p = 2 \<longrightarrow> ControlRegions_logpdf self mpars data model current_lnpdf = Inr 0) \<and>
     (p = 3 \<longrightarrow> penalties (Tensor [1, 1] [3]) (attr_y self) (attr_w self) = Inr (Tensor [1, 1] [0.25]) \<and>
                ControlRegions_logpdf self mpars data model current_lnpdf = Inr (- 0.0125))"
proof -
  let ?x = "\<lparr>array = Tensor [1, 1] [10], names = [''phi1'']\<rparr>"
  let ?self = "\<lparr>center = \<lparr>array = Tensor [1, 2] [10, 2], names = [''phi1'', n]\<rparr>,
             width = Inl 0.5, lamda = 0.05, coord_name = ''phi1'', component_param_name = ''mu'',
             attr_x = ?x, attr_y_names = [n], attr_y = Tensor [1, 1] [2],
             attr_w = Tensor [1, 1] [0.5]\<rparr>"
  have u: "[0..<Suc 0] = [0]"
    by (simp add: upt_rec)
  have init: "ControlRegions_post_init \<lparr>array = Tensor [1, 2] [10, 2], names = [''phi1'', n]\<rparr>
                  (Inl 0.5) 0.05 ''phi1'' ''mu'' = Inr ?self"
    using assms(1)
    by (simp add: ControlRegions_post_init_def getitem_names_def select_columns_def name_index_def
        squeeze_def atleast_2d_def ndim_def ones_like_def u Let_def)
  have st: "stack1 [Tensor [1] [p]] = Inr (Tensor [1, 1] [p])"
    by (simp add: stack1_def u)
  have pen: "penalties (Tensor [1, 1] [q]) (Tensor [1, 1] [2]) (Tensor [1, 1] [0.5]) =
      Inr (Tensor [1, 1] [penalty q 2 0.5])" for q
    by (simp add: penalties_same_shape [of _ "[1, 1]" _ _ 1] u)
  have p2: "penalty 2 2 0.5 = 0" and p3: "penalty 3 2 0.5 = 0.25"
    by (simp_all add: penalty_def power2_eq_square)
  have lp: "ControlRegions_logpdf ?self mpars data model current_lnpdf = Inr (- 0.05 * penalty p 2 0.5)"
    using assms(2) st pen [of p] by (simp add: ControlRegions_logpdf_def getitem_params_def)
  have "ControlRegions_post_init \<lparr>array = Tensor [1, 2] [10, 2], names = [''phi1'', n]\<rparr>
                  (Inl 0.5) 0.05 ''phi1'' ''mu'' = Inr ?self \<and>
     attr_x ?self = ?x \<and>
     (p = 2 \<longrightarrow> ControlRegions_logpdf ?self mpars data model current_lnpdf = Inr 0) \<and>
     (p = 3 \<longrightarrow> penalties (Tensor [1, 1] [3]) (attr_y ?self) (attr_w ?self) = Inr (Tensor [1, 1] [0.25]) \<and>
                ControlRegions_logpdf ?self mpars data model current_lnpdf = Inr (- 0.0125))"
    using init lp pen [of 3] p2 p3 by simp
  then show ?thesis
    by (rule exI [of _ ?self])
qed

theorem control_region_example_witness:
  "''phi2'' \<noteq> ''phi1'' \<and>
   (\<exists>self. ControlRegions_post_init \<lparr>array = Tensor [1, 2] [10, 2], names = [''phi1'', ''phi2'']\<rparr>
                  (Inl 0.5) 0.05 ''phi1'' ''mu'' = Inr self \<and>
     ControlRegions_logpdf self Map.empty \<lparr>array = Tensor [0, 2] [], names = [''phi1'', ''phi2'']\<rparr>
       (\<lambda>_. [(''phi2'', ''mu'') \<mapsto> Tensor [1] [3]]) None = Inr (- 0.0125))"
  using control_region_example
    [of "''phi2''" "\<lambda>_. [(''phi2'', ''mu'') \<mapsto> Tensor [1] [3]]" 3 Map.empty
        "\<lparr>array = Tensor [0, 2] [], names = [''phi1'', ''phi2'']\<rparr>" None]
  by auto

subsection \<open>The shape of the stored targets\<close>

text \<open>
  \<open>_atleast_2d\<close> after \<open>squeeze\<close> gives a \<open>(c, f)\<close> array its shape back unless \<open>c = 1\<close> and
  \<open>f > 1\<close>, where the result is \<open>(f, 1)\<close>. With two control points and two dependent columns
  \<open>logpdf\<close> returns the weighted sum of the four penalties.
\<close>

lemma atleast_2d_squeeze_shape:
  "shape (atleast_2d (squeeze (Tensor [c, f] xs))) =
     (if c = 1 \<and> f = 1 then [1, 1] else if c = 1 then [f, 1] else if f = 1 then [c, 1] else [c, f])"
  by (simp add: atleast_2d_def squeeze_def ndim_def)

lemma logpdf_two_points_two_columns:
  "and_then (ControlRegions_post_init
               \<lparr>array = Tensor [2, 3] [10, 2, 3, 11, 5, 6], names = [''phi1'', ''phi2'', ''pmra'']\<rparr>
               (Inl 0.5) 0.05 ''phi1'' ''mu'')
     (\<lambda>self. ControlRegions_logpdf self mpars data
        (\<lambda>_. [(''phi2'', ''mu'') \<mapsto> Tensor [2] [2, 7], (''pmra'', ''mu'') \<mapsto> Tensor [2] [3, 4]])
        current_lnpdf) = Inr (- 0.05 * (0 + 0 + (7 - 5.5) ^ 2 + (4 - 5.5) ^ 2))"
proof -
  have u: "[0..<2] = [0, Suc 0]" "[0..<4] = [0, Suc 0, 2, 3]"
    by (simp_all add: upt_rec)
  have "ControlRegions_post_init
          \<lparr>array = Tensor [2, 3] [10, 2, 3, 11, 5, 6], names = [''phi1'', ''phi2'', ''pmra'']\<rparr>
          (Inl 0.5) 0.05 ''phi1'' ''mu'' =
        Inr \<lparr>center = \<lparr>array = Tensor [2, 3] [10, 2, 3, 11, 5, 6], names = [''phi1'', ''phi2'', ''pmra'']\<rparr>,
             width = Inl 0.5, lamda = 0.05, coord_name = ''phi1'', component_param_name = ''mu'',
             attr_x = \<lparr>array = Tensor [2, 1] [10, 11], names = [''phi1'']\<rparr>,
             attr_y_names = [''phi2'', ''pmra''], attr_y = Tensor [2, 2] [2, 3, 5, 6],
             attr_w = Tensor [2, 2] [0.5, 0.5, 0.5, 0.5]\<rparr>"
    by (simp add: ControlRegions_post_init_def getitem_names_def select_columns_def name_index_def
        squeeze_def atleast_2d_def ndim_def ones_like_def u Let_def)
  moreover have "stack1 [Tensor [2] [2, 7], Tensor [2] [3, 4]] = Inr (Tensor [2, 2] [2, 3, 7, 4])"
    by (simp add: stack1_def u)
  moreover have "penalties (Tensor [2, 2] [2, 3, 7, 4]) (Tensor [2, 2] [2, 3, 5, 6])
        (Tensor [2, 2] [0.5, 0.5, 0.5, 0.5]) = Inr (Tensor [2, 2] [0, 0, (7 - 5.5) ^ 2, (4 - 5.5) ^ 2])"
    by (simp add: penalties_same_shape [of _ "[2, 2]" _ _ 4] u penalty_def power2_eq_square)
  ultimately show ?thesis
    by (simp add: ControlRegions_logpdf_def getitem_params_def)
qed

end
